theory Spec2Isabelle
  imports Complex_Main
begin

section \<open>Python values and builtins used by the server\<close>

text \<open>
  The server is \<^verbatim>\<open>src/clickhouse_mcp_server/server.py\<close>. Its four handlers are pure
  glue between three things that live outside the repository: the process environment
  (\<^verbatim>\<open>os.getenv\<close>), the ClickHouse driver (\<^verbatim>\<open>get_client\<close>, \<^verbatim>\<open>client.query\<close>) and Python's
  string builtins. The builtins are written out below on ASCII text; the environment and
  the driver are fields of the record \<open>world\<close>, so every theorem holds for any
  environment and any driver behaviour.

  Exceptions are values: every handler returns \<open>exc + result\<close>, with \<open>Inl\<close> a raised
  exception, paired with the list of driver calls it made before returning.
\<close>

datatype exc =
    ValueError string
  | AttributeError string
  | TypeError string
  | IndexError string
  | DriverError string

text \<open>\<^verbatim>\<open>str(e)\<close>: the message an exception was raised with.\<close>

fun exc_str :: "exc \<Rightarrow> string" where
  "exc_str (ValueError m) = m"
| "exc_str (AttributeError m) = m"
| "exc_str (TypeError m) = m"
| "exc_str (IndexError m) = m"
| "exc_str (DriverError m) = m"

text \<open>
  The values a decoded tool call can carry in its \<^verbatim>\<open>arguments\<close> dictionary, and Python's
  truth value of each (\<^verbatim>\<open>not query\<close> at line 152 tests it).
\<close>

datatype json =
    JNull
  | JBool bool
  | JInt int
  | JFloat real
  | JStr string
  | JList "json list"
  | JDict "(string \<times> json) list"

fun truthy :: "json \<Rightarrow> bool" where
  "truthy JNull = False"
| "truthy (JBool b) = b"
| "truthy (JInt i) = (i \<noteq> 0)"
| "truthy (JFloat r) = (r \<noteq> 0)"
| "truthy (JStr s) = (s \<noteq> [])"
| "truthy (JList xs) = (xs \<noteq> [])"
| "truthy (JDict kvs) = (kvs \<noteq> [])"

fun type_name :: "json \<Rightarrow> string" where
  "type_name JNull = ''NoneType''"
| "type_name (JBool b) = ''bool''"
| "type_name (JInt i) = ''int''"
| "type_name (JFloat r) = ''float''"
| "type_name (JStr s) = ''str''"
| "type_name (JList xs) = ''list''"
| "type_name (JDict kvs) = ''dict''"

subsection \<open>String builtins\<close>

text \<open>\<^verbatim>\<open>str.isspace\<close> on the ASCII range: tab, LF, VT, FF, CR, FS, GS, RS, US and space.\<close>

definition is_space :: "char \<Rightarrow> bool" where
  "is_space c \<longleftrightarrow> c \<in> set [CHR 0x09, CHR 0x0A, CHR 0x0B, CHR 0x0C, CHR 0x0D,
                              CHR 0x1C, CHR 0x1D, CHR 0x1E, CHR 0x1F, CHR 0x20]"

text \<open>\<^verbatim>\<open>s.strip()\<close>: leading and trailing whitespace removed.\<close>

definition py_strip :: "string \<Rightarrow> string" where
  "py_strip s = rev (dropWhile is_space (rev (dropWhile is_space s)))"

text \<open>\<^verbatim>\<open>s.upper()\<close>: the letters a to z become A to Z, every other character stays.\<close>

definition upper_char :: "char \<Rightarrow> char" where
  "upper_char c =
     (case map_of (zip ''abcdefghijklmnopqrstuvwxyz'' ''ABCDEFGHIJKLMNOPQRSTUVWXYZ'') c of
        Some u \<Rightarrow> u
      | None \<Rightarrow> c)"

definition py_upper :: "string \<Rightarrow> string" where
  "py_upper s = map upper_char s"

text \<open>\<^verbatim>\<open>s.startswith(p)\<close>.\<close>

definition startswith :: "string \<Rightarrow> string \<Rightarrow> bool" where
  "startswith s p \<longleftrightarrow> take (length p) s = p"

text \<open>
  \<^verbatim>\<open>s.split(sep)\<close> for a one-character separator: every occurrence cuts, so the result
  is never empty and \<^verbatim>\<open>"".split("/")\<close> is \<^verbatim>\<open>[""]\<close>.
\<close>

fun py_split :: "string \<Rightarrow> char \<Rightarrow> string list" where
  "py_split [] sep = [[]]"
| "py_split (c # cs) sep =
     (if c = sep then [] # py_split cs sep
      else (case py_split cs sep of
              p # ps \<Rightarrow> (c # p) # ps
            | [] \<Rightarrow> [[c]]))"

text \<open>\<^verbatim>\<open>sep.join(xs)\<close> on a list of strings.\<close>

fun py_join :: "string \<Rightarrow> string list \<Rightarrow> string" where
  "py_join sep [] = []"
| "py_join sep [x] = x"
| "py_join sep (x # y # ys) = x @ sep @ py_join sep (y # ys)"

definition TAB :: string where
  "TAB = [CHR 0x09]"

definition NL :: string where
  "NL = ''\<newline>''"

subsection \<open>Reading an integer: \<^verbatim>\<open>int(s)\<close>\<close>

text \<open>
  \<^verbatim>\<open>int(s)\<close> in base ten on ASCII text: surrounding whitespace is dropped, one sign is
  allowed, and single underscores may separate digits. Anything else raises ValueError.
\<close>

definition digit_of :: "char \<Rightarrow> nat option" where
  "digit_of c = map_of (zip ''0123456789'' [0, 1, 2, 3, 4, 5, 6, 7, 8, 9]) c"

fun parse_digits :: "nat \<Rightarrow> string \<Rightarrow> nat option" where
  "parse_digits acc [] = Some acc"
| "parse_digits acc [c] =
     (case digit_of c of Some d \<Rightarrow> Some (acc * 10 + d) | None \<Rightarrow> None)"
| "parse_digits acc (c # c' # cs) =
     (case digit_of c of
        Some d \<Rightarrow> parse_digits (acc * 10 + d) (c' # cs)
      | None \<Rightarrow>
          (if c = CHR ''_'' \<and> digit_of c' \<noteq> None then parse_digits acc (c' # cs)
           else None))"

definition parse_nat :: "string \<Rightarrow> nat option" where
  "parse_nat s =
     (case s of
        [] \<Rightarrow> None
      | c # cs \<Rightarrow> (case digit_of c of Some d \<Rightarrow> parse_digits d cs | None \<Rightarrow> None))"

definition py_int :: "string \<Rightarrow> exc + int" where
  "py_int s =
     (let t = py_strip s;
          r = (case t of
                 [] \<Rightarrow> None
               | c # cs \<Rightarrow>
                   (if c = CHR ''-'' then map_option (\<lambda>n. - int n) (parse_nat cs)
                    else if c = CHR ''+'' then map_option int (parse_nat cs)
                    else map_option int (parse_nat t)))
      in case r of
           Some i \<Rightarrow> Inr i
         | None \<Rightarrow>
             Inl (ValueError (''invalid literal for int() with base 10: '' @ [CHR 0x27] @ s
                              @ [CHR 0x27])))"

subsection \<open>Values in result rows\<close>

text \<open>
  A cell of a result row. The driver hands back Python objects of many classes; the
  server only ever asks two things of a cell: its \<^verbatim>\<open>str()\<close>, and (in \<^verbatim>\<open>"\n".join\<close>)
  whether it is a \<^verbatim>\<open>str\<close>. \<open>SOther d\<close> is a cell of any other class (a UUID, a
  date, a float) whose \<^verbatim>\<open>str()\<close> is \<open>d\<close>.
\<close>

datatype scalar =
    SStr string
  | SInt int
  | SNone
  | SOther string

function show_nat :: "nat \<Rightarrow> string" where
  "show_nat n =
     (if n < 10 then [''0123456789'' ! n]
      else show_nat (n div 10) @ [''0123456789'' ! (n mod 10)])"
  by pat_completeness auto
termination
  by (relation "measure id") auto

definition show_int :: "int \<Rightarrow> string" where
  "show_int i = (if i < 0 then CHR ''-'' # show_nat (nat (- i)) else show_nat (nat i))"

text \<open>\<^verbatim>\<open>str(value)\<close>, which is also what an f-string placeholder \<^verbatim>\<open>{value}\<close> inserts.\<close>

fun py_str :: "scalar \<Rightarrow> string" where
  "py_str (SStr s) = s"
| "py_str (SInt i) = show_int i"
| "py_str SNone = ''None''"
| "py_str (SOther d) = d"

section \<open>The driver and the environment\<close>

text \<open>
  \<^verbatim>\<open>client.query(sql)\<close> returns an object with \<^verbatim>\<open>column_names\<close> and \<^verbatim>\<open>result_rows\<close>,
  or raises. A client is modelled by what its \<^verbatim>\<open>query\<close> method answers to each SQL text.
\<close>

record query_result =
  column_names :: "string list"
  result_rows :: "scalar list list"

type_synonym client = "string \<Rightarrow> exc + query_result"

text \<open>The keyword arguments \<^verbatim>\<open>get_client\<close> is called with (lines 41 to 47).\<close>

record config =
  cfg_host :: string
  cfg_port :: int
  cfg_username :: string
  cfg_password :: string
  cfg_database :: string

text \<open>
  What a handler did to the backing store, in order: \<open>Connect\<close> is a call of the
  driver's \<^verbatim>\<open>get_client\<close>, \<open>Query\<close> a call of \<^verbatim>\<open>client.query\<close> with that SQL text.
\<close>

datatype event = Connect config | Query string

record world =
  environ :: "string \<rightharpoonup> string"
  get_client :: "config \<Rightarrow> exc + client"

type_synonym 'a io = "event list \<times> (exc + 'a)"

text \<open>\<^verbatim>\<open>os.getenv(key, default)\<close>.\<close>

definition getenv :: "world \<Rightarrow> string \<Rightarrow> string \<Rightarrow> string" where
  "getenv w key dflt = (case environ w key of Some v \<Rightarrow> v | None \<Rightarrow> dflt)"

text \<open>
  \<^verbatim>\<open>a or b\<close> for an optional string \<open>a\<close>: \<open>a\<close> when it is truthy, that is neither
  \<^verbatim>\<open>None\<close> nor empty, and \<open>b\<close> otherwise.
\<close>

definition or_str :: "string option \<Rightarrow> string \<Rightarrow> string" where
  "or_str a b = (case a of Some s \<Rightarrow> (if s \<noteq> [] then s else b) | None \<Rightarrow> b)"

text \<open>
  \<^verbatim>\<open>port or int(os.getenv("CLICKHOUSE_PORT", "8123"))\<close>: the right operand is evaluated,
  and can raise, only when \<open>port\<close> is \<^verbatim>\<open>None\<close> or zero.
\<close>

definition or_port :: "int option \<Rightarrow> world \<Rightarrow> exc + int" where
  "or_port a w =
     (case a of
        Some p \<Rightarrow> (if p \<noteq> 0 then Inr p else py_int (getenv w ''CLICKHOUSE_PORT'' ''8123''))
      | None \<Rightarrow> py_int (getenv w ''CLICKHOUSE_PORT'' ''8123''))"

definition get_clickhouse_client ::
  "world \<Rightarrow> string option \<Rightarrow> int option \<Rightarrow> string option \<Rightarrow> string option \<Rightarrow>
   string option \<Rightarrow> client io" where
  "get_clickhouse_client w host port username password database =
     (let CLICKHOUSE_HOST = or_str host (getenv w ''CLICKHOUSE_HOST'' ''localhost'') in
      case or_port port w of
        Inl e \<Rightarrow> ([], Inl e)
      | Inr CLICKHOUSE_PORT \<Rightarrow>
          (let CLICKHOUSE_USER = or_str username (getenv w ''CLICKHOUSE_USER'' ''default'');
               CLICKHOUSE_PASSWORD = or_str password (getenv w ''CLICKHOUSE_PASSWORD'' '''');
               CLICKHOUSE_DATABASE =
                 or_str database (getenv w ''CLICKHOUSE_DATABASE'' ''default'');
               cfg = \<lparr>cfg_host = CLICKHOUSE_HOST, cfg_port = CLICKHOUSE_PORT,
                      cfg_username = CLICKHOUSE_USER, cfg_password = CLICKHOUSE_PASSWORD,
                      cfg_database = CLICKHOUSE_DATABASE\<rparr>
           in ([Connect cfg], get_client w cfg)))"

section \<open>Catalog Resolver\<close>

datatype any_url = AnyUrl string

text \<open>
  \<^verbatim>\<open>AnyUrl(text)\<close> and \<^verbatim>\<open>str(uri)\<close>. The validation and normalisation pydantic performs
  are outside the repository: a URL is the text it was built from.
\<close>

fun url_str :: "any_url \<Rightarrow> string" where
  "url_str (AnyUrl s) = s"

record resource =
  uri :: any_url
  name :: string
  mimeType :: string
  description :: string

text \<open>The SQL text of lines 59 to 65, as the triple-quoted literal spells it.\<close>

definition db_query :: string where
  "db_query = ''\<newline>    SELECT\<newline>        name,\<newline>        engine\<newline>    FROM system.databases\<newline>    WHERE name NOT IN ('system', 'information_schema', 'INFORMATION_SCHEMA')\<newline>    ''"

text \<open>\<^verbatim>\<open>row[0]\<close> and \<^verbatim>\<open>row[1]\<close> on a result row; a row too short raises IndexError.\<close>

definition index0 :: "scalar list \<Rightarrow> exc + scalar" where
  "index0 row =
     (case row of
        [] \<Rightarrow> Inl (IndexError ''tuple index out of range'')
      | x # _ \<Rightarrow> Inr x)"

definition index1 :: "scalar list \<Rightarrow> exc + scalar" where
  "index1 row =
     (case row of
        _ # y # _ \<Rightarrow> Inr y
      | _ \<Rightarrow> Inl (IndexError ''tuple index out of range''))"

text \<open>The first descriptor of a database (lines 69 to 76).\<close>

definition tables_resource :: "string \<Rightarrow> resource" where
  "tables_resource database =
     \<lparr>uri = AnyUrl (''clickhouse://'' @ database @ ''/tables''),
      name = ''Database: '' @ database,
      mimeType = ''text/plain'',
      description = ''Tables in database: '' @ database\<rparr>"

text \<open>The descriptor of one table (lines 82 to 87).\<close>

definition schema_resource :: "string \<Rightarrow> string \<Rightarrow> resource" where
  "schema_resource database table =
     \<lparr>uri = AnyUrl (''clickhouse://'' @ database @ ''/'' @ table @ ''/schema''),
      name = ''Table: '' @ database @ ''.'' @ table,
      mimeType = ''text/plain'',
      description = ''Schema of table: '' @ database @ ''.'' @ table\<rparr>"

text \<open>The list comprehension of lines 81 to 89 over \<^verbatim>\<open>table_result.result_rows\<close>.\<close>

fun table_resources :: "string \<Rightarrow> scalar list list \<Rightarrow> exc + resource list" where
  "table_resources database [] = Inr []"
| "table_resources database (table # rest) =
     (case index0 table of
        Inl e \<Rightarrow> Inl e
      | Inr t \<Rightarrow>
          (case table_resources database rest of
             Inl e \<Rightarrow> Inl e
           | Inr rs \<Rightarrow> Inr (schema_resource database (py_str t) # rs)))"

text \<open>
  The loop of lines 67 to 90 over \<^verbatim>\<open>db_result.result_rows\<close>. \<open>evs\<close> are the driver calls
  made so far and \<open>resources\<close> is the list the source appends to.
\<close>

fun list_resources_loop ::
  "client \<Rightarrow> scalar list list \<Rightarrow> event list \<Rightarrow> resource list \<Rightarrow> resource list io" where
  "list_resources_loop client [] evs resources = (evs, Inr resources)"
| "list_resources_loop client (db # dbs) evs resources =
     (case index0 db of
        Inl e \<Rightarrow> (evs, Inl e)
      | Inr d \<Rightarrow>
          (let database = py_str d;
               sql = ''SHOW TABLES FROM '' @ database
           in case client sql of
                Inl e \<Rightarrow> (evs @ [Query sql], Inl e)
              | Inr table_result \<Rightarrow>
                  (case table_resources database (result_rows table_result) of
                     Inl e \<Rightarrow> (evs @ [Query sql], Inl e)
                   | Inr rs \<Rightarrow>
                       list_resources_loop client dbs (evs @ [Query sql])
                         (resources @ [tables_resource database] @ rs))))"

definition list_resources :: "world \<Rightarrow> resource list io" where
  "list_resources w =
     (case get_clickhouse_client w None None None None None of
        (evs, Inl e) \<Rightarrow> (evs, Inl e)
      | (evs, Inr client) \<Rightarrow>
          (case client db_query of
             Inl e \<Rightarrow> (evs @ [Query db_query], Inl e)
           | Inr db_result \<Rightarrow>
               list_resources_loop client (result_rows db_result)
                 (evs @ [Query db_query]) []))"

text \<open>
  \<^verbatim>\<open>"\n".join(row[0] for row in rows)\<close> (line 109): the generator is run to its end
  first, so a short row raises IndexError; then every item has to be a \<^verbatim>\<open>str\<close>.
\<close>

fun first_items :: "scalar list list \<Rightarrow> exc + scalar list" where
  "first_items [] = Inr []"
| "first_items (row # rows) =
     (case index0 row of
        Inl e \<Rightarrow> Inl e
      | Inr x \<Rightarrow> (case first_items rows of Inl e \<Rightarrow> Inl e | Inr xs \<Rightarrow> Inr (x # xs)))"

fun str_items :: "scalar list \<Rightarrow> exc + string list" where
  "str_items [] = Inr []"
| "str_items (x # xs) =
     (case x of
        SStr s \<Rightarrow> (case str_items xs of Inl e \<Rightarrow> Inl e | Inr ss \<Rightarrow> Inr (s # ss))
      | _ \<Rightarrow> Inl (TypeError ''sequence item: expected str instance''))"

text \<open>The list comprehension of line 114.\<close>

fun schema_lines :: "scalar list list \<Rightarrow> exc + string list" where
  "schema_lines [] = Inr []"
| "schema_lines (row # rows) =
     (case index0 row of
        Inl e \<Rightarrow> Inl e
      | Inr x \<Rightarrow>
          (case index1 row of
             Inl e \<Rightarrow> Inl e
           | Inr y \<Rightarrow>
               (case schema_lines rows of
                  Inl e \<Rightarrow> Inl e
                | Inr ls \<Rightarrow> Inr ((py_str x @ '' - '' @ py_str y) # ls))))"

definition read_resource :: "world \<Rightarrow> any_url \<Rightarrow> string io" where
  "read_resource w u =
     (case get_clickhouse_client w None None None None None of
        (evs, Inl e) \<Rightarrow> (evs, Inl e)
      | (evs, Inr client) \<Rightarrow>
          (let uri_str = url_str u in
           if \<not> startswith uri_str ''clickhouse://''
           then (evs, Inl (ValueError (''Invalid URI scheme: '' @ uri_str)))
           else
             (let parts = py_split (drop (length ''clickhouse://'') uri_str) CHR ''/'' in
              if length parts = 2 \<and> parts ! 1 = ''tables'' then
                (let database = parts ! 0;
                     sql = ''SHOW TABLES FROM '' @ database
                 in case client sql of
                      Inl e \<Rightarrow> (evs @ [Query sql], Inl e)
                    | Inr result \<Rightarrow>
                        (evs @ [Query sql],
                         case first_items (result_rows result) of
                           Inl e \<Rightarrow> Inl e
                         | Inr xs \<Rightarrow>
                             (case str_items xs of
                                Inl e \<Rightarrow> Inl e
                              | Inr ss \<Rightarrow> Inr (py_join NL ss))))
              else if length parts = 3 \<and> parts ! 2 = ''schema'' then
                (let database = parts ! 0;
                     table = parts ! 1;
                     sql = ''DESCRIBE TABLE '' @ database @ ''.'' @ table
                 in case client sql of
                      Inl e \<Rightarrow> (evs @ [Query sql], Inl e)
                    | Inr result \<Rightarrow>
                        (evs @ [Query sql],
                         case schema_lines (result_rows result) of
                           Inl e \<Rightarrow> Inl e
                         | Inr schema \<Rightarrow> Inr (py_join NL schema)))
              else (evs, Inl (ValueError (''Invalid resource URI: '' @ uri_str))))))"

section \<open>Query Gateway\<close>

text \<open>
  \<^verbatim>\<open>TextContent(type=..., text=...)\<close>. The field \<^verbatim>\<open>text\<close> is written \<open>text'\<close> here.
\<close>

record text_content =
  type :: string
  text' :: string

text \<open>The body of the \<^verbatim>\<open>try\<close> block after the query has run (lines 162 to 167).\<close>

definition render :: "query_result \<Rightarrow> string" where
  "render result =
     (let output = [py_join TAB (column_names result)]
                   @ map (\<lambda>row. py_join TAB (map py_str row)) (result_rows result)
      in py_join NL output)"

definition call_tool :: "world \<Rightarrow> string \<Rightarrow> (string \<rightharpoonup> json) \<Rightarrow> text_content list io" where
  "call_tool w name' arguments =
     (if name' \<noteq> ''execute_select_query''
      then ([], Inl (ValueError (''Unknown tool: '' @ name')))
      else
        (let query = (case arguments ''query'' of Some v \<Rightarrow> v | None \<Rightarrow> JNull) in
         if \<not> truthy query then ([], Inl (ValueError ''Query is required''))
         else
           (case query of
              JStr q \<Rightarrow>
                (if \<not> startswith (py_upper (py_strip q)) ''SELECT''
                 then ([], Inr [\<lparr>type = ''text'',
                                 text' = ''Error: Only SELECT queries are allowed.''\<rparr>])
                 else
                   (case get_clickhouse_client w None None None None None of
                      (evs, Inl e) \<Rightarrow>
                        (evs, Inr [\<lparr>type = ''text'',
                                    text' = ''Error executing query: '' @ exc_str e\<rparr>])
                    | (evs, Inr client) \<Rightarrow>
                        (case client q of
                           Inl e \<Rightarrow>
                             (evs @ [Query q],
                              Inr [\<lparr>type = ''text'',
                                     text' = ''Error executing query: '' @ exc_str e\<rparr>])
                         | Inr result \<Rightarrow>
                             (evs @ [Query q],
                              Inr [\<lparr>type = ''text'', text' = render result\<rparr>]))))
            | _ \<Rightarrow>
                ([], Inl (AttributeError
                           ([CHR 0x27] @ type_name query @ [CHR 0x27]
                            @ '' object has no attribute '' @ [CHR 0x27] @ ''strip''
                            @ [CHR 0x27]))))))"

section \<open>The store's evaluation of the database query\<close>

text \<open>
  \<open>list_resources\<close> leaves the exclusion of the reserved databases to the store: it
  sends the text \<open>db_query\<close> and lists whatever comes back. What comes back is decided
  by that text, so the store is modelled as far as the text needs: it holds the table
  \<^verbatim>\<open>system.databases\<close> with its columns \<^verbatim>\<open>name\<close> and \<^verbatim>\<open>engine\<close>, reads a statement of the
  shape \<^verbatim>\<open>SELECT columns FROM table [WHERE column NOT IN (literals)]\<close> from the characters
  it is sent, and compares strings character by character, as ClickHouse does.
\<close>

datatype token = Word string | Lit string | Comma | LParen | RParen

datatype lex_state = Idle | InWord string | InLit string

definition punct :: "char \<Rightarrow> token option" where
  "punct c =
     (if c = CHR '','' then Some Comma
      else if c = CHR ''('' then Some LParen
      else if c = CHR '')'' then Some RParen
      else None)"

text \<open>
  The characters of a statement cut into words, quoted literals and punctuation. The
  word or literal being read is kept reversed in the state; a literal left open is an
  error.
\<close>

fun lex :: "lex_state \<Rightarrow> string \<Rightarrow> token list option" where
  "lex Idle [] = Some []"
| "lex (InWord w) [] = Some [Word (rev w)]"
| "lex (InLit l) [] = None"
| "lex Idle (c # cs) =
     (if c = CHR 0x27 then lex (InLit []) cs
      else if is_space c then lex Idle cs
      else (case punct c of
              Some t \<Rightarrow> map_option (\<lambda>ts. t # ts) (lex Idle cs)
            | None \<Rightarrow> lex (InWord [c]) cs))"
| "lex (InWord w) (c # cs) =
     (if c = CHR 0x27 then map_option (\<lambda>ts. Word (rev w) # ts) (lex (InLit []) cs)
      else if is_space c then map_option (\<lambda>ts. Word (rev w) # ts) (lex Idle cs)
      else (case punct c of
              Some t \<Rightarrow> map_option (\<lambda>ts. Word (rev w) # t # ts) (lex Idle cs)
            | None \<Rightarrow> lex (InWord (c # w)) cs))"
| "lex (InLit l) (c # cs) =
     (if c = CHR 0x27 then map_option (\<lambda>ts. Lit (rev l) # ts) (lex Idle cs)
      else lex (InLit (c # l)) cs)"

text \<open>A keyword is a word, in any letter case.\<close>

definition keyword :: "string \<Rightarrow> token \<Rightarrow> bool" where
  "keyword k t = (case t of Word w \<Rightarrow> py_upper w = k | _ \<Rightarrow> False)"

record select_stmt =
  sel_columns :: "string list"
  sel_table :: string
  sel_where :: "(string \<times> string list) option"

text \<open>A comma-separated list of column names, and what follows it.\<close>

fun parse_columns :: "token list \<Rightarrow> (string list \<times> token list) option" where
  "parse_columns (Word c # Comma # ts) =
     (case parse_columns ts of Some (cs, rest) \<Rightarrow> Some (c # cs, rest) | None \<Rightarrow> None)"
| "parse_columns (Word c # ts) = Some ([c], ts)"
| "parse_columns ts = None"

text \<open>A comma-separated list of literals up to the closing parenthesis.\<close>

fun parse_literals :: "token list \<Rightarrow> (string list \<times> token list) option" where
  "parse_literals (Lit l # Comma # ts) =
     (case parse_literals ts of Some (ls, rest) \<Rightarrow> Some (l # ls, rest) | None \<Rightarrow> None)"
| "parse_literals (Lit l # RParen # ts) = Some ([l], ts)"
| "parse_literals ts = None"

text \<open>Nothing, or \<^verbatim>\<open>WHERE column NOT IN (literals)\<close> up to the end of the statement.\<close>

fun parse_where :: "token list \<Rightarrow> (string \<times> string list) option option" where
  "parse_where [] = Some None"
| "parse_where (w # Word c # n # i # LParen # ts) =
     (if keyword ''WHERE'' w \<and> keyword ''NOT'' n \<and> keyword ''IN'' i
      then (case parse_literals ts of
              Some (ls, []) \<Rightarrow> Some (Some (c, ls))
            | _ \<Rightarrow> None)
      else None)"
| "parse_where ts = None"

definition parse_select :: "token list \<Rightarrow> select_stmt option" where
  "parse_select ts =
     (case ts of
        s # ts1 \<Rightarrow>
          (if keyword ''SELECT'' s
           then (case parse_columns ts1 of
                   Some (cs, f # Word t # ts2) \<Rightarrow>
                     (if keyword ''FROM'' f
                      then (case parse_where ts2 of
                              Some cond \<Rightarrow>
                                Some \<lparr>sel_columns = cs, sel_table = t, sel_where = cond\<rparr>
                            | None \<Rightarrow> None)
                      else None)
                 | _ \<Rightarrow> None)
           else None)
      | [] \<Rightarrow> None)"

text \<open>The columns of \<^verbatim>\<open>system.databases\<close> and the value a row has in each.\<close>

definition known :: "string \<Rightarrow> bool" where
  "known c \<longleftrightarrow> c = ''name'' \<or> c = ''engine''"

definition cell :: "string \<Rightarrow> string \<times> string \<Rightarrow> string" where
  "cell c row = (if c = ''name'' then fst row else snd row)"

text \<open>
  A statement run on the rows \<open>databases\<close> of \<^verbatim>\<open>system.databases\<close>: the rows the
  condition keeps, in the table's order, each reduced to the selected columns.
\<close>

definition run_select :: "select_stmt \<Rightarrow> (string \<times> string) list \<Rightarrow> exc + query_result" where
  "run_select st databases =
     (if sel_table st \<noteq> ''system.databases'' then Inl (DriverError ''Unknown table'')
      else if \<not> list_all known (sel_columns st) then Inl (DriverError ''Unknown column'')
      else
        (case sel_where st of
           None \<Rightarrow>
             Inr \<lparr>column_names = sel_columns st,
                  result_rows =
                    map (\<lambda>row. map (\<lambda>c. SStr (cell c row)) (sel_columns st)) databases\<rparr>
         | Some (c, lits) \<Rightarrow>
             (if \<not> known c then Inl (DriverError ''Unknown column'')
              else
                Inr \<lparr>column_names = sel_columns st,
                     result_rows =
                       map (\<lambda>row. map (\<lambda>c. SStr (cell c row)) (sel_columns st))
                         (filter (\<lambda>row. cell c row \<notin> set lits) databases)\<rparr>)))"

definition store_query :: "(string \<times> string) list \<Rightarrow> string \<Rightarrow> exc + query_result" where
  "store_query databases sql =
     (case lex Idle sql of
        None \<Rightarrow> Inl (DriverError ''Syntax error'')
      | Some ts \<Rightarrow>
          (case parse_select ts of
             None \<Rightarrow> Inl (DriverError ''Syntax error'')
           | Some st \<Rightarrow> run_select st databases))"

text \<open>
  The three names the query is written to leave out, stated apart from the query.
\<close>

definition excluded :: "string list" where
  "excluded = [''system'', ''information_schema'', ''INFORMATION_SCHEMA'']"

section \<open>The listing the specification describes\<close>

text \<open>
  The specification's words for \<open>list_resources\<close>: for every database, in order, one
  table-list descriptor followed by one schema descriptor per table, in order.
  \<open>catalog\<close> pairs each database with its tables.
\<close>

definition expected_resources :: "(string \<times> string list) list \<Rightarrow> resource list" where
  "expected_resources catalog =
     concat (map (\<lambda>(db, tables). tables_resource db # map (schema_resource db) tables)
               catalog)"

text \<open>The first cell of every row, as text.\<close>

definition first_column :: "scalar list list \<Rightarrow> string list" where
  "first_column rows = map (\<lambda>row. py_str (hd row)) rows"

section \<open>Resolution of a connection parameter, in words\<close>

text \<open>
  The order in which a parameter is looked up, stated apart from the code: the call
  argument when it is given and truthy (a non-empty string, a non-zero port), else the
  environment variable when it is set, else the default. The port read from the
  environment or the default is text and goes through \<open>py_int\<close>.
\<close>

definition resolve :: "string option \<Rightarrow> string option \<Rightarrow> string \<Rightarrow> string" where
  "resolve arg env dflt =
     (if arg \<noteq> None \<and> arg \<noteq> Some [] then the arg
      else case env of Some v \<Rightarrow> v | None \<Rightarrow> dflt)"

definition resolve_port :: "int option \<Rightarrow> string option \<Rightarrow> string \<Rightarrow> exc + int" where
  "resolve_port arg env dflt =
     (if arg \<noteq> None \<and> arg \<noteq> Some 0 then Inr (the arg)
      else py_int (case env of Some v \<Rightarrow> v | None \<Rightarrow> dflt))"

section \<open>Example worlds\<close>

text \<open>
  A store with the three reserved databases and one database \<^verbatim>\<open>default\<close> holding one
  table \<^verbatim>\<open>t\<close> with two rows; every other SQL text is a syntax error.
\<close>

definition demo_databases :: "(string \<times> string) list" where
  "demo_databases =
     [(''system'', ''Atomic''), (''INFORMATION_SCHEMA'', ''Memory''),
      (''default'', ''Atomic''), (''information_schema'', ''Memory'')]"

definition demo_client :: client where
  "demo_client sql =
     (if sql = db_query then store_query demo_databases sql
      else if sql = ''SHOW TABLES FROM default''
        then Inr \<lparr>column_names = [''name''], result_rows = [[SStr ''t'']]\<rparr>
      else if sql = ''DESCRIBE TABLE default.t''
        then Inr \<lparr>column_names = [''name'', ''type'', ''default_type''],
                  result_rows = [[SStr ''id'', SStr ''UUID'', SStr []],
                                 [SStr ''name'', SStr ''String'', SStr []]]\<rparr>
      else if sql = ''SELECT * FROM t''
        then Inr \<lparr>column_names = [''id'', ''name'', ''value''],
                  result_rows = [[SOther ''u1'', SStr ''Test 1'', SInt 10],
                                 [SOther ''u2'', SStr ''Test 2'', SInt 20]]\<rparr>
      else Inl (DriverError ''Syntax error''))"

definition demo_world :: world where
  "demo_world = \<lparr>environ = Map.empty, get_client = (\<lambda>cfg. Inr demo_client)\<rparr>"

text \<open>The configuration every default is resolved to when the environment is empty.\<close>

definition default_config :: config where
  "default_config =
     \<lparr>cfg_host = ''localhost'', cfg_port = 8123, cfg_username = ''default'',
      cfg_password = [], cfg_database = ''default''\<rparr>"

text \<open>No store answers: the driver's \<^verbatim>\<open>get_client\<close> raises.\<close>

definition offline_world :: world where
  "offline_world =
     \<lparr>environ = Map.empty, get_client = (\<lambda>cfg. Inl (DriverError ''Connection refused''))\<rparr>"

text \<open>The environment sets a port that is not a number.\<close>

definition bad_port_world :: world where
  "bad_port_world =
     \<lparr>environ = [''CLICKHOUSE_PORT'' \<mapsto> ''abc''], get_client = (\<lambda>cfg. Inr demo_client)\<rparr>"

text \<open>The environment sets a password and a port.\<close>

definition env_world :: world where
  "env_world =
     \<lparr>environ = [''CLICKHOUSE_PASSWORD'' \<mapsto> ''secret'', ''CLICKHOUSE_PORT'' \<mapsto> ''9000''],
      get_client = (\<lambda>cfg. Inr demo_client)\<rparr>"

text \<open>
  A store with a user database whose name is \<^verbatim>\<open>information_schema\<close> in mixed case, and
  no table in it.
\<close>

definition mixed_case_client :: client where
  "mixed_case_client sql =
     (if sql = db_query
        then store_query
               [(''information_schema'', ''Memory''), (''Information_Schema'', ''Atomic'')] sql
      else if sql = ''SHOW TABLES FROM Information_Schema''
        then Inr \<lparr>column_names = [''name''], result_rows = []\<rparr>
      else Inl (DriverError ''Syntax error''))"

definition mixed_case_world :: world where
  "mixed_case_world = \<lparr>environ = Map.empty, get_client = (\<lambda>cfg. Inr mixed_case_client)\<rparr>"

section \<open>Facts about the builtins and the example worlds\<close>

lemma falsy_values:
  "\<not> truthy v \<longleftrightarrow>
     v \<in> {JNull, JBool False, JInt 0, JFloat 0, JStr [], JList [], JDict []}"
  by (cases v) auto

lemma gate_nonempty: "startswith (py_upper (py_strip q)) ''SELECT'' \<Longrightarrow> q \<noteq> []"
  by (auto simp: startswith_def py_upper_def py_strip_def)

lemma demo_connect:
  "get_clickhouse_client demo_world None None None None None
     = ([Connect default_config], Inr demo_client)"
  by (simp add: get_clickhouse_client_def demo_world_def default_config_def or_port_def
      or_str_def getenv_def py_int_def py_strip_def is_space_def parse_nat_def digit_of_def)

lemma insert_not_select:
  "\<not> startswith (py_upper (py_strip ''INSERT INTO t VALUES (1)'')) ''SELECT''"
  by (simp add: startswith_def py_upper_def py_strip_def is_space_def upper_char_def)

lemma select_nope_gate: "startswith (py_upper (py_strip ''SELECT nope'')) ''SELECT''"
  by (simp add: startswith_def py_upper_def py_strip_def is_space_def upper_char_def)

lemma demo_select_nope: "demo_client ''SELECT nope'' = Inl (DriverError ''Syntax error'')"
  by (simp add: demo_client_def db_query_def)

lemma lex_db_query:
  "lex Idle db_query
     = Some [Word ''SELECT'', Word ''name'', Comma, Word ''engine'', Word ''FROM'',
             Word ''system.databases'', Word ''WHERE'', Word ''name'', Word ''NOT'',
             Word ''IN'', LParen, Lit ''system'', Comma, Lit ''information_schema'', Comma,
             Lit ''INFORMATION_SCHEMA'', RParen]"
  by (simp add: db_query_def is_space_def punct_def)

lemma parse_db_query:
  "parse_select [Word ''SELECT'', Word ''name'', Comma, Word ''engine'', Word ''FROM'',
             Word ''system.databases'', Word ''WHERE'', Word ''name'', Word ''NOT'',
             Word ''IN'', LParen, Lit ''system'', Comma, Lit ''information_schema'', Comma,
             Lit ''INFORMATION_SCHEMA'', RParen]
     = Some \<lparr>sel_columns = [''name'', ''engine''], sel_table = ''system.databases'',
              sel_where = Some (''name'', excluded)\<rparr>"
  by (simp add: parse_select_def keyword_def py_upper_def upper_char_def excluded_def)

text \<open>
  What the store answers to the text \<open>list_resources\<close> sends: the name and engine of
  every database whose name is none of the three literals of the \<^verbatim>\<open>NOT IN\<close> list.
\<close>

lemma store_query_db_query:
  "store_query databases db_query
     = Inr \<lparr>column_names = [''name'', ''engine''],
            result_rows = map (\<lambda>row. [SStr (fst row), SStr (snd row)])
                            (filter (\<lambda>row. fst row \<notin> set excluded) databases)\<rparr>"
  by (simp add: store_query_def lex_db_query parse_db_query run_select_def known_def
      cell_def)

section \<open>Query Gateway: the argument check and the read-only gate\<close>

text \<open>
  Claim C10. When \<^verbatim>\<open>arguments\<close> maps \<^verbatim>\<open>query\<close> to a falsy value (the empty string,
  \<^verbatim>\<open>None\<close>, \<^verbatim>\<open>False\<close>, zero, an empty list or dictionary), \<open>call_tool\<close> raises
  \<^verbatim>\<open>ValueError("Query is required")\<close>, the very outcome of a call without the key, and
  makes no driver call: the trace is empty.
\<close>

theorem call_tool_falsy_query:
  assumes "arguments ''query'' = Some v" and "\<not> truthy v"
  shows "call_tool w ''execute_select_query'' arguments
           = ([], Inl (ValueError ''Query is required''))
         \<and> call_tool w ''execute_select_query'' (arguments(''query'' := None))
           = ([], Inl (ValueError ''Query is required''))"
  using assms by (simp add: call_tool_def)

theorem call_tool_falsy_query_witness:
  "call_tool demo_world ''execute_select_query'' [''query'' \<mapsto> JStr []]
     = ([], Inl (ValueError ''Query is required''))
   \<and> call_tool demo_world ''execute_select_query'' Map.empty
     = ([], Inl (ValueError ''Query is required''))"
  using call_tool_falsy_query [of "[''query'' \<mapsto> JStr []]" "JStr []" demo_world]
  by simp

text \<open>
  Claim C1, as amended. For every non-empty query string whose stripped, upper-cased
  form does not start with \<^verbatim>\<open>SELECT\<close>, \<open>call_tool\<close> returns normally, with the one text
  block \<^verbatim>\<open>Error: Only SELECT queries are allowed.\<close>, and makes no driver call.
\<close>

theorem call_tool_rejects_non_select:
  assumes "arguments ''query'' = Some (JStr q)" and "q \<noteq> []"
    and "\<not> startswith (py_upper (py_strip q)) ''SELECT''"
  shows "call_tool w ''execute_select_query'' arguments
           = ([], Inr [\<lparr>type = ''text'',
                        text' = ''Error: Only SELECT queries are allowed.''\<rparr>])"
  using assms by (simp add: call_tool_def)

theorem call_tool_rejects_non_select_witness:
  "call_tool demo_world ''execute_select_query''
       [''query'' \<mapsto> JStr ''INSERT INTO t VALUES (1)'']
     = ([], Inr [\<lparr>type = ''text'',
                  text' = ''Error: Only SELECT queries are allowed.''\<rparr>])"
  using call_tool_rejects_non_select
    [of "[''query'' \<mapsto> JStr ''INSERT INTO t VALUES (1)'']" "''INSERT INTO t VALUES (1)''"
        demo_world]
    insert_not_select
  by simp

text \<open>
  The empty string is a query string whose stripped, upper-cased form does not start
  with \<^verbatim>\<open>SELECT\<close>, and the call raises on it: the check of line 152 comes before the gate.
\<close>

theorem call_tool_empty_query_raises:
  "\<not> startswith (py_upper (py_strip [])) ''SELECT''
   \<and> call_tool demo_world ''execute_select_query'' [''query'' \<mapsto> JStr []]
     = ([], Inl (ValueError ''Query is required''))"
  by (simp add: call_tool_def startswith_def py_upper_def py_strip_def)

section \<open>Query Gateway: failures of the store\<close>

text \<open>
  Claim C2, as amended. For every query that passes the gate and whose execution by the
  client raises \<open>e\<close>, \<open>call_tool\<close> returns normally with the one text block
  \<^verbatim>\<open>Error executing query: \<close> followed by \<^verbatim>\<open>str(e)\<close>; the prefix has no colon after
  \<^verbatim>\<open>Error\<close>.
\<close>

theorem call_tool_store_error:
  assumes "arguments ''query'' = Some (JStr q)"
    and "startswith (py_upper (py_strip q)) ''SELECT''"
    and "get_clickhouse_client w None None None None None = (evs, Inr client)"
    and "client q = Inl e"
  shows "call_tool w ''execute_select_query'' arguments
           = (evs @ [Query q],
              Inr [\<lparr>type = ''text'', text' = ''Error executing query: '' @ exc_str e\<rparr>])"
  using assms gate_nonempty [of q] by (simp add: call_tool_def)

theorem call_tool_store_error_witness:
  "call_tool demo_world ''execute_select_query'' [''query'' \<mapsto> JStr ''SELECT nope'']
     = ([Connect default_config, Query ''SELECT nope''],
        Inr [\<lparr>type = ''text'', text' = ''Error executing query: Syntax error''\<rparr>])"
  using call_tool_store_error
    [of "[''query'' \<mapsto> JStr ''SELECT nope'']" "''SELECT nope''" demo_world
        "[Connect default_config]" demo_client "DriverError ''Syntax error''"]
    select_nope_gate demo_connect demo_select_nope
  by simp

text \<open>
  The store rejects \<^verbatim>\<open>SELECT nope\<close> with the message \<^verbatim>\<open>Syntax error\<close>; the text returned
  is not \<^verbatim>\<open>Error: executing query: Syntax error\<close>.
\<close>

theorem call_tool_store_error_text:
  "snd (call_tool demo_world ''execute_select_query'' [''query'' \<mapsto> JStr ''SELECT nope''])
     = Inr [\<lparr>type = ''text'', text' = ''Error executing query: Syntax error''\<rparr>]
   \<and> snd (call_tool demo_world ''execute_select_query''
            [''query'' \<mapsto> JStr ''SELECT nope''])
     \<noteq> Inr [\<lparr>type = ''text'',
              text' = ''Error: executing query: '' @ exc_str (DriverError ''Syntax error'')\<rparr>]"
  using select_nope_gate demo_connect demo_select_nope
  by (simp add: call_tool_def)

section \<open>Query Gateway: rendering and the gate as a prefix check\<close>

lemma select_t_gate: "startswith (py_upper (py_strip ''SELECT * FROM t'')) ''SELECT''"
  by (simp add: startswith_def py_upper_def py_strip_def is_space_def upper_char_def)

lemma demo_select_t:
  "demo_client ''SELECT * FROM t''
     = Inr \<lparr>column_names = [''id'', ''name'', ''value''],
            result_rows = [[SOther ''u1'', SStr ''Test 1'', SInt 10],
                           [SOther ''u2'', SStr ''Test 2'', SInt 20]]\<rparr>"
  by (simp add: demo_client_def db_query_def)

lemma show_int_10: "show_int 10 = ''10''"
  by code_simp

lemma show_int_20: "show_int 20 = ''20''"
  by code_simp

lemma selectfoo_gate: "startswith (py_upper (py_strip '' selectfoo'')) ''SELECT''"
  by (simp add: startswith_def py_upper_def py_strip_def is_space_def upper_char_def)

lemma demo_selectfoo: "demo_client '' selectfoo'' = Inl (DriverError ''Syntax error'')"
  by (simp add: demo_client_def db_query_def)

text \<open>
  Claim C5. For every query that passes the gate and that the client executes without
  raising, \<open>call_tool\<close> returns one text block: the column names joined by tabs, then
  one line per result row in the order the client returned them, each the \<^verbatim>\<open>str()\<close> of
  its cells joined by tabs, the lines joined by newlines.
\<close>

theorem call_tool_renders_rows:
  assumes "arguments ''query'' = Some (JStr q)"
    and "startswith (py_upper (py_strip q)) ''SELECT''"
    and "get_clickhouse_client w None None None None None = (evs, Inr client)"
    and "client q = Inr result"
  shows "call_tool w ''execute_select_query'' arguments
           = (evs @ [Query q],
              Inr [\<lparr>type = ''text'',
                    text' = py_join NL
                      (py_join TAB (column_names result)
                       # map (\<lambda>row. py_join TAB (map py_str row)) (result_rows result))\<rparr>])"
  using assms gate_nonempty [of q] by (simp add: call_tool_def render_def)

theorem call_tool_renders_rows_witness:
  "call_tool demo_world ''execute_select_query'' [''query'' \<mapsto> JStr ''SELECT * FROM t'']
     = ([Connect default_config, Query ''SELECT * FROM t''],
        Inr [\<lparr>type = ''text'',
              text' = ''id'' @ TAB @ ''name'' @ TAB @ ''value'' @ NL
                      @ ''u1'' @ TAB @ ''Test 1'' @ TAB @ ''10'' @ NL
                      @ ''u2'' @ TAB @ ''Test 2'' @ TAB @ ''20''\<rparr>])"
  using call_tool_renders_rows
    [of "[''query'' \<mapsto> JStr ''SELECT * FROM t'']" "''SELECT * FROM t''" demo_world
        "[Connect default_config]" demo_client
        "\<lparr>column_names = [''id'', ''name'', ''value''],
            result_rows = [[SOther ''u1'', SStr ''Test 1'', SInt 10],
                           [SOther ''u2'', SStr ''Test 2'', SInt 20]]\<rparr>"]
    select_t_gate demo_connect demo_select_t
  by (simp add: show_int_10 show_int_20)

text \<open>
  Claim C9, as amended. The gate looks at the first six characters only. For every
  query whose stripped, upper-cased form starts with \<^verbatim>\<open>SELECT\<close>, whatever follows,
  \<open>call_tool\<close> does not answer with the rejection of the gate: it goes on to acquire a
  client, and whenever it obtains one it hands it the query unchanged, so that the last
  driver call is \<open>Query q\<close> with \<open>q\<close> as submitted. When no client can be
  acquired nothing is sent, and the answer is \<^verbatim>\<open>Error executing query: \<close> followed by
  the message of that failure.
\<close>

theorem call_tool_gate_is_prefix_check:
  assumes "arguments ''query'' = Some (JStr q)"
    and "startswith (py_upper (py_strip q)) ''SELECT''"
  shows "call_tool w ''execute_select_query'' arguments
           = (case get_clickhouse_client w None None None None None of
                (evs, Inl e) \<Rightarrow>
                  (evs, Inr [\<lparr>type = ''text'',
                              text' = ''Error executing query: '' @ exc_str e\<rparr>])
              | (evs, Inr client) \<Rightarrow>
                  (evs @ [Query q],
                   Inr [\<lparr>type = ''text'',
                         text' = (case client q of
                                    Inl e \<Rightarrow> ''Error executing query: '' @ exc_str e
                                  | Inr result \<Rightarrow> render result)\<rparr>]))"
  using assms gate_nonempty [of q]
  by (simp add: call_tool_def split: prod.splits sum.splits)

theorem call_tool_gate_is_prefix_check_witness:
  "call_tool demo_world ''execute_select_query'' [''query'' \<mapsto> JStr '' selectfoo'']
     = ([Connect default_config, Query '' selectfoo''],
        Inr [\<lparr>type = ''text'', text' = ''Error executing query: Syntax error''\<rparr>])"
  using call_tool_gate_is_prefix_check
    [of "[''query'' \<mapsto> JStr '' selectfoo'']" "'' selectfoo''" demo_world]
    selectfoo_gate demo_connect demo_selectfoo
  by simp

text \<open>
  \<^verbatim>\<open>SELECTfoo\<close> passes the gate. With no store reachable the driver is asked for a
  client and raises; with an unreadable port in the environment it is not even asked.
  In both cases the query is never sent.
\<close>

theorem call_tool_gate_passed_nothing_sent:
  "startswith (py_upper (py_strip ''SELECTfoo'')) ''SELECT''
   \<and> call_tool offline_world ''execute_select_query'' [''query'' \<mapsto> JStr ''SELECTfoo'']
     = ([Connect default_config],
        Inr [\<lparr>type = ''text'', text' = ''Error executing query: Connection refused''\<rparr>])
   \<and> Query ''SELECTfoo''
       \<notin> set (fst (call_tool offline_world ''execute_select_query''
                        [''query'' \<mapsto> JStr ''SELECTfoo'']))
   \<and> fst (call_tool bad_port_world ''execute_select_query''
             [''query'' \<mapsto> JStr ''SELECTfoo'']) = []"
proof -
  have gate: "startswith (py_upper (py_strip ''SELECTfoo'')) ''SELECT''"
    by (simp add: startswith_def py_upper_def py_strip_def is_space_def upper_char_def)
  have off: "get_clickhouse_client offline_world None None None None None
               = ([Connect default_config], Inl (DriverError ''Connection refused''))"
    by (simp add: get_clickhouse_client_def offline_world_def default_config_def or_port_def
        or_str_def getenv_def py_int_def py_strip_def is_space_def parse_nat_def
        digit_of_def)
  have bad: "\<exists>e. get_clickhouse_client bad_port_world None None None None None
                 = ([], Inl e)"
    by (simp add: get_clickhouse_client_def bad_port_world_def or_port_def
        or_str_def getenv_def py_int_def py_strip_def is_space_def parse_nat_def
        digit_of_def)
  have run: "call_tool offline_world ''execute_select_query''
               [''query'' \<mapsto> JStr ''SELECTfoo'']
     = ([Connect default_config],
        Inr [\<lparr>type = ''text'', text' = ''Error executing query: Connection refused''\<rparr>])"
    using gate off by (simp add: call_tool_def)
  from bad obtain e where "get_clickhouse_client bad_port_world None None None None None
                 = ([], Inl e)" ..
  then have none: "fst (call_tool bad_port_world ''execute_select_query''
                     [''query'' \<mapsto> JStr ''SELECTfoo'']) = []"
    using gate by (simp add: call_tool_def)
  show ?thesis
    using gate run none by simp
qed

section \<open>Connection configuration\<close>

lemma or_str_resolve: "or_str a (getenv w k d) = resolve a (environ w k) d"
  by (simp add: or_str_def resolve_def getenv_def split: option.splits)

lemma or_port_resolve:
  "or_port a w = resolve_port a (environ w ''CLICKHOUSE_PORT'') ''8123''"
  by (simp add: or_port_def resolve_port_def getenv_def split: option.splits)

text \<open>
  Claim C8, as amended. Each connection parameter is the call argument when that is
  given and truthy (a non-empty string, a non-zero port), else the value of its
  environment variable when set, else its default; the port taken from the environment
  or the default is parsed as an integer, and the call raises, without any driver call,
  when that text is not a number. The driver's \<^verbatim>\<open>get_client\<close> is called once, with the
  five resolved values.
\<close>

theorem get_clickhouse_client_resolution:
  "get_clickhouse_client w host port username password database =
     (case resolve_port port (environ w ''CLICKHOUSE_PORT'') ''8123'' of
        Inl e \<Rightarrow> ([], Inl e)
      | Inr p \<Rightarrow>
          (let cfg =
             \<lparr>cfg_host = resolve host (environ w ''CLICKHOUSE_HOST'') ''localhost'',
              cfg_port = p,
              cfg_username = resolve username (environ w ''CLICKHOUSE_USER'') ''default'',
              cfg_password = resolve password (environ w ''CLICKHOUSE_PASSWORD'') [],
              cfg_database = resolve database (environ w ''CLICKHOUSE_DATABASE'') ''default''\<rparr>
           in ([Connect cfg], get_client w cfg)))"
  by (simp add: get_clickhouse_client_def or_str_resolve or_port_resolve Let_def
      split: sum.splits)

text \<open>
  An empty password and a port of zero are given explicitly, and neither is \<^verbatim>\<open>None\<close>;
  the environment's password and port are used all the same.
\<close>

theorem empty_password_argument_loses:
  "fst (get_clickhouse_client env_world (Some ''db.example'') (Some 0) None (Some []) None)
     = [Connect \<lparr>cfg_host = ''db.example'', cfg_port = 9000, cfg_username = ''default'',
                 cfg_password = ''secret'', cfg_database = ''default''\<rparr>]"
  by (simp add: get_clickhouse_client_def env_world_def or_port_def
      or_str_def getenv_def py_int_def py_strip_def is_space_def parse_nat_def digit_of_def)

section \<open>Catalog Resolver: reading a resource\<close>

text \<open>
  Once a client has been obtained, an identifier of the wrong scheme or of the wrong
  shape is refused with its own error and no query is sent.
\<close>

lemma read_resource_wrong_scheme:
  assumes "get_clickhouse_client w None None None None None = (evs, Inr client)"
    and "\<not> startswith s ''clickhouse://''"
  shows "read_resource w (AnyUrl s) = (evs, Inl (ValueError (''Invalid URI scheme: '' @ s)))"
  using assms by (simp add: read_resource_def)

lemma read_resource_wrong_shape:
  assumes "get_clickhouse_client w None None None None None = (evs, Inr client)"
    and "startswith s ''clickhouse://''"
    and "py_split (drop (length ''clickhouse://'') s) CHR ''/'' = parts"
    and "\<not> (length parts = 2 \<and> parts ! 1 = ''tables'')"
    and "\<not> (length parts = 3 \<and> parts ! 2 = ''schema'')"
  shows "read_resource w (AnyUrl s) = (evs, Inl (ValueError (''Invalid resource URI: '' @ s)))"
proof -
  have tab: "(length parts = 2 \<and> parts ! 1 = ''tables'') = False"
    using assms(4) by blast
  have sch: "(length parts = 3 \<and> parts ! 2 = ''schema'') = False"
    using assms(5) by blast
  show ?thesis
    unfolding read_resource_def assms(1) url_str.simps Let_def assms(3) tab sch
    using assms(2) by simp
qed

text \<open>
  Claim C3. \<open>read_resource\<close> acquires its client on its first line, before it looks
  at the identifier. With no store reachable, an identifier of the wrong scheme ends in
  the driver's error after a \<open>Connect\<close>; with an unreadable port in the environment, an
  identifier of the wrong shape ends in the error of \<^verbatim>\<open>int()\<close>. Neither is the
  identifier's own error.
\<close>

theorem read_resource_connects_first:
  "read_resource offline_world (AnyUrl ''invalid://default/test_table/schema'')
     = ([Connect default_config], Inl (DriverError ''Connection refused''))
   \<and> read_resource bad_port_world (AnyUrl ''clickhouse://default/invalid'')
     = ([], Inl (ValueError (''invalid literal for int() with base 10: '' @ [CHR 0x27]
                              @ ''abc'' @ [CHR 0x27])))"
  by (simp add: read_resource_def get_clickhouse_client_def offline_world_def
      bad_port_world_def default_config_def or_port_def
      or_str_def getenv_def py_int_def py_strip_def is_space_def parse_nat_def digit_of_def)

lemma py_split_no_sep: "c \<notin> set s \<Longrightarrow> py_split s c = [s]"
  by (induction s) auto

lemma py_split_append: "c \<notin> set a \<Longrightarrow> py_split (a @ c # b) c = a # py_split b c"
  by (induction a) auto

lemma startswith_append: "startswith (p @ s) p"
  by (simp add: startswith_def)

lemma schema_parts:
  assumes "CHR ''/'' \<notin> set database" and "CHR ''/'' \<notin> set table"
  shows "py_split (database @ ''/'' @ table @ ''/schema'') CHR ''/''
           = [database, table, ''schema'']"
proof -
  have "py_split (table @ CHR ''/'' # ''schema'') CHR ''/'' = [table, ''schema'']"
    using assms(2) by (simp add: py_split_append py_split_no_sep)
  then show ?thesis
    using assms(1) py_split_append [of "CHR ''/''" database "table @ ''/schema''"] by simp
qed

lemma schema_lines_pairs:
  "schema_lines (map (\<lambda>(n, t, rest). SStr n # SStr t # rest) columns)
     = Inr (map (\<lambda>(n, t, rest). n @ '' - '' @ t) columns)"
  by (induction columns) (auto simp: index0_def index1_def)

lemma demo_describe:
  "demo_client (''DESCRIBE TABLE '' @ ''default'' @ ''.'' @ ''t'')
     = Inr \<lparr>column_names = [''name'', ''type'', ''default_type''],
            result_rows = [[SStr ''id'', SStr ''UUID'', SStr []],
                           [SStr ''name'', SStr ''String'', SStr []]]\<rparr>"
  by (simp add: demo_client_def db_query_def)

text \<open>
  Claim C6. For a schema identifier \<^verbatim>\<open>clickhouse://{database}/{table}/schema\<close>, neither
  segment holding a slash, \<open>read_resource\<close> sends \<^verbatim>\<open>DESCRIBE TABLE {database}.{table}\<close>
  and, when the store answers with rows that start with a column's name and type,
  returns the lines \<^verbatim>\<open>{name} - {type}\<close>, one per row in the store's order, joined by
  newlines, with no header.
\<close>

theorem read_resource_schema:
  assumes "CHR ''/'' \<notin> set database" and "CHR ''/'' \<notin> set table"
    and "get_clickhouse_client w None None None None None = (evs, Inr client)"
    and "client (''DESCRIBE TABLE '' @ database @ ''.'' @ table) = Inr result"
    and "result_rows result = map (\<lambda>(n, t, rest). SStr n # SStr t # rest) columns"
  shows "read_resource w (AnyUrl (''clickhouse://'' @ database @ ''/'' @ table @ ''/schema''))
           = (evs @ [Query (''DESCRIBE TABLE '' @ database @ ''.'' @ table)],
              Inr (py_join NL (map (\<lambda>(n, t, rest). n @ '' - '' @ t) columns)))"
proof -
  let ?u = "''clickhouse://'' @ database @ ''/'' @ table @ ''/schema''"
  have sw: "startswith ?u ''clickhouse://''"
    by (rule startswith_append)
  have dr: "drop (length ''clickhouse://'') ?u = database @ ''/'' @ table @ ''/schema''"
    by simp
  have parts: "py_split (drop (length ''clickhouse://'') ?u) CHR ''/''
                 = [database, table, ''schema'']"
    unfolding dr using assms(1,2) by (rule schema_parts)
  show ?thesis
    unfolding read_resource_def assms(3) url_str.simps Let_def parts
    using sw assms(4,5) by (simp add: schema_lines_pairs)
qed

theorem read_resource_schema_witness:
  "read_resource demo_world (AnyUrl ''clickhouse://default/t/schema'')
     = ([Connect default_config, Query ''DESCRIBE TABLE default.t''],
        Inr (''id - UUID'' @ NL @ ''name - String''))"
  using read_resource_schema
    [of "''default''" "''t''" demo_world "[Connect default_config]" demo_client
        "\<lparr>column_names = [''name'', ''type'', ''default_type''],
            result_rows = [[SStr ''id'', SStr ''UUID'', SStr []],
                           [SStr ''name'', SStr ''String'', SStr []]]\<rparr>"
        "[(''id'', ''UUID'', [SStr []]), (''name'', ''String'', [SStr []])]"]
    demo_connect demo_describe
  by simp

section \<open>Catalog Resolver: listing the resources\<close>

lemma table_resources_ok:
  "[] \<notin> set rows \<Longrightarrow>
   table_resources d rows = Inr (map (schema_resource d) (first_column rows))"
  by (induction rows) (auto simp: index0_def first_column_def split: list.splits)

lemma list_resources_loop_ok:
  assumes "[] \<notin> set rows" and "first_column rows = map fst catalog"
    and "\<forall>(db, tables) \<in> set catalog.
           \<exists>tr. client (''SHOW TABLES FROM '' @ db) = Inr tr
                \<and> [] \<notin> set (result_rows tr) \<and> first_column (result_rows tr) = tables"
  shows "list_resources_loop client rows evs acc
           = (evs @ map (\<lambda>(db, tables). Query (''SHOW TABLES FROM '' @ db)) catalog,
              Inr (acc @ expected_resources catalog))"
  using assms
proof (induction rows arbitrary: catalog evs acc)
  case Nil
  then show ?case by (simp add: first_column_def expected_resources_def)
next
  case (Cons row rows)
  from Cons.prems(2) obtain db tables rest where cat: "catalog = (db, tables) # rest"
    and db: "py_str (hd row) = db" and rest: "first_column rows = map fst rest"
    by (cases catalog) (auto simp: first_column_def)
  from Cons.prems(1) obtain x xs where row: "row = x # xs"
    by (cases row) auto
  from Cons.prems(3) cat obtain tr where tr: "client (''SHOW TABLES FROM '' @ db) = Inr tr"
    "[] \<notin> set (result_rows tr)" "first_column (result_rows tr) = tables"
    by auto
  have tail: "\<forall>(db, tables) \<in> set rest.
           \<exists>tr. client (''SHOW TABLES FROM '' @ db) = Inr tr
                \<and> [] \<notin> set (result_rows tr) \<and> first_column (result_rows tr) = tables"
    using Cons.prems(3) cat by simp
  have nonempty: "[] \<notin> set rows"
    using Cons.prems(1) by simp
  have IH: "list_resources_loop client rows (evs @ [Query (''SHOW TABLES FROM '' @ db)])
              (acc @ [tables_resource db] @ map (schema_resource db) tables)
            = ((evs @ [Query (''SHOW TABLES FROM '' @ db)])
                 @ map (\<lambda>(db, tables). Query (''SHOW TABLES FROM '' @ db)) rest,
               Inr ((acc @ [tables_resource db] @ map (schema_resource db) tables)
                    @ expected_resources rest))"
    by (rule Cons.IH [OF nonempty rest tail])
  have tabs: "table_resources db (result_rows tr) = Inr (map (schema_resource db) tables)"
    using table_resources_ok [OF tr(2)] tr(3) by simp
  show ?case
    using db row tr(1) tabs IH cat
    by (simp add: index0_def expected_resources_def)
qed

lemma demo_db_query:
  "demo_client db_query
     = Inr \<lparr>column_names = [''name'', ''engine''],
            result_rows = [[SStr ''default'', SStr ''Atomic'']]\<rparr>"
  by (simp add: demo_client_def store_query_db_query demo_databases_def excluded_def)

lemma demo_show_tables:
  "demo_client (''SHOW TABLES FROM '' @ ''default'')
     = Inr \<lparr>column_names = [''name''], result_rows = [[SStr ''t'']]\<rparr>"
  by (simp add: demo_client_def db_query_def)

text \<open>
  Claim C7. When the store answers the database query with the databases of \<open>catalog\<close>
  in order, and answers \<^verbatim>\<open>SHOW TABLES FROM {db}\<close> with each database's tables in order,
  \<open>list_resources\<close> returns exactly: for every database in that order, the descriptor
  \<^verbatim>\<open>clickhouse://{db}/tables\<close>, followed at once by one descriptor
  \<^verbatim>\<open>clickhouse://{db}/{table}/schema\<close> per table in that order. It issues one query for
  the databases and one per database.
\<close>

theorem list_resources_order:
  assumes "get_clickhouse_client w None None None None None = (evs, Inr client)"
    and "client db_query = Inr db_result"
    and "[] \<notin> set (result_rows db_result)"
    and "first_column (result_rows db_result) = map fst catalog"
    and "\<forall>(db, tables) \<in> set catalog.
           \<exists>tr. client (''SHOW TABLES FROM '' @ db) = Inr tr
                \<and> [] \<notin> set (result_rows tr) \<and> first_column (result_rows tr) = tables"
  shows "list_resources w
           = (evs @ Query db_query
                  # map (\<lambda>(db, tables). Query (''SHOW TABLES FROM '' @ db)) catalog,
              Inr (expected_resources catalog))"
  using assms(1,2) list_resources_loop_ok [OF assms(3,4,5), of "evs @ [Query db_query]" "[]"]
  by (simp add: list_resources_def)

theorem list_resources_order_witness:
  "list_resources demo_world
     = ([Connect default_config, Query db_query, Query ''SHOW TABLES FROM default''],
        Inr [\<lparr>uri = AnyUrl ''clickhouse://default/tables'', name = ''Database: default'',
              mimeType = ''text/plain'', description = ''Tables in database: default''\<rparr>,
             \<lparr>uri = AnyUrl ''clickhouse://default/t/schema'', name = ''Table: default.t'',
              mimeType = ''text/plain'', description = ''Schema of table: default.t''\<rparr>])"
  using list_resources_order
    [of demo_world "[Connect default_config]" demo_client
        "\<lparr>column_names = [''name'', ''engine''],
            result_rows = [[SStr ''default'', SStr ''Atomic'']]\<rparr>"
        "[(''default'', [''t''])]"]
    demo_connect demo_db_query demo_show_tables
  by (simp add: first_column_def expected_resources_def tables_resource_def
      schema_resource_def)

lemma table_resources_members:
  "table_resources d rows = Inr rs \<Longrightarrow> r \<in> set rs \<Longrightarrow> \<exists>t. r = schema_resource d t"
  by (induction rows arbitrary: rs) (auto split: sum.splits)

lemma list_resources_loop_members:
  "list_resources_loop client rows evs acc = (evs', Inr rs) \<Longrightarrow> r \<in> set rs \<Longrightarrow>
   r \<in> set acc
   \<or> (\<exists>x xs. x # xs \<in> set rows
        \<and> (r = tables_resource (py_str x) \<or> (\<exists>t. r = schema_resource (py_str x) t)))"
proof (induction rows arbitrary: evs acc)
  case Nil
  then show ?case by simp
next
  case (Cons row rows)
  from Cons.prems(1) obtain x xs where row: "row = x # xs"
    by (cases row) (auto simp: index0_def)
  let ?sql = "''SHOW TABLES FROM '' @ py_str x"
  from Cons.prems(1) row obtain tr where tr: "client ?sql = Inr tr"
    by (cases "client ?sql") (auto simp: index0_def Let_def)
  from Cons.prems(1) row tr obtain ts
    where ts: "table_resources (py_str x) (result_rows tr) = Inr ts"
    by (cases "table_resources (py_str x) (result_rows tr)") (auto simp: index0_def Let_def)
  have step: "list_resources_loop client rows (evs @ [Query ?sql])
                (acc @ [tables_resource (py_str x)] @ ts) = (evs', Inr rs)"
    using Cons.prems(1) row tr ts by (simp add: index0_def Let_def)
  from Cons.IH [OF step Cons.prems(2)]
  show ?case
    using row table_resources_members [OF ts] by auto
qed

lemma diverging_separators:
  assumes "d @ a # t = e @ a # t'" and "d @ b # t = e @ b # t'" and "a \<noteq> b"
  shows "d = e"
  using assms(1,2)
proof (induction d arbitrary: e)
  case Nil
  show ?case
  proof (cases e)
    case Nil
    then show ?thesis by simp
  next
    case (Cons c es)
    from Nil.prems(1) Cons have "a = c" by simp
    moreover from Nil.prems(2) Cons have "b = c" by simp
    ultimately show ?thesis using assms(3) by simp
  qed
next
  case (Cons c d)
  show ?case
  proof (cases e)
    case Nil
    from Cons.prems(1) Nil have "c = a" by simp
    moreover from Cons.prems(2) Nil have "c = b" by simp
    ultimately show ?thesis using assms(3) by simp
  next
    case (Cons c' es)
    from Cons.prems(1) Cons have h: "c = c'" and t1: "d @ a # t = es @ a # t'" by simp_all
    from Cons.prems(2) Cons have t2: "d @ b # t = es @ b # t'" by simp
    from Cons.IH [OF t1 t2] h Cons show ?thesis by simp
  qed
qed

lemma tables_resource_inj: "tables_resource d = tables_resource e \<Longrightarrow> d = e"
  by (simp add: tables_resource_def)

lemma schema_not_tables: "schema_resource d t \<noteq> tables_resource e"
  by (simp add: tables_resource_def schema_resource_def)

lemma schema_resource_inj:
  assumes "schema_resource d t = schema_resource e t'"
  shows "d = e"
proof -
  from assms have "d @ CHR ''/'' # t = e @ CHR ''/'' # t'"
    and "d @ CHR ''.'' # t = e @ CHR ''.'' # t'"
    by (simp_all add: schema_resource_def)
  then show ?thesis
    by (rule diverging_separators) simp
qed

lemma mixed_case_connect:
  "get_clickhouse_client mixed_case_world None None None None None
     = ([Connect default_config], Inr mixed_case_client)"
  by (simp add: get_clickhouse_client_def mixed_case_world_def default_config_def or_port_def
      or_str_def getenv_def py_int_def py_strip_def is_space_def parse_nat_def digit_of_def)

lemma demo_db_query_store: "demo_client db_query = store_query demo_databases db_query"
  by (simp add: demo_client_def)

text \<open>
  Claim C4, as amended. When the store evaluates the text it is sent, \<open>db_query\<close>, on
  its table \<^verbatim>\<open>system.databases\<close>, \<open>list_resources\<close> returns no descriptor, table-list
  or schema, of a database named exactly \<^verbatim>\<open>system\<close>, \<^verbatim>\<open>information_schema\<close> or
  \<^verbatim>\<open>INFORMATION_SCHEMA\<close>: these are the three literals of the query's \<^verbatim>\<open>NOT IN\<close> list,
  and the store compares names with them character by character.
\<close>

theorem list_resources_excludes_reserved:
  assumes "get_clickhouse_client w None None None None None = (evs0, Inr client)"
    and "client db_query = store_query databases db_query"
    and "list_resources w = (evs, Inr rs)"
    and "e \<in> set excluded"
  shows "tables_resource e \<notin> set rs \<and> (\<forall>t. schema_resource e t \<notin> set rs)"
proof -
  let ?rows = "map (\<lambda>row. [SStr (fst row), SStr (snd row)])
                (filter (\<lambda>row. fst row \<notin> set excluded) databases)"
  have loop: "list_resources_loop client ?rows (evs0 @ [Query db_query]) [] = (evs, Inr rs)"
    using assms(1,2,3) by (simp add: list_resources_def store_query_db_query)
  have names: "py_str x \<notin> set excluded" if "x # xs \<in> set ?rows" for x xs
    using that by auto
  have "r \<noteq> tables_resource e \<and> r \<noteq> schema_resource e t" if r: "r \<in> set rs" for r t
  proof -
    from list_resources_loop_members [OF loop r]
    obtain x xs where x: "x # xs \<in> set ?rows"
      and shape: "r = tables_resource (py_str x) \<or> (\<exists>t. r = schema_resource (py_str x) t)"
      by auto
    have ne: "py_str x \<noteq> e"
      using names [OF x] assms(4) by auto
    from shape show ?thesis
    proof
      assume "r = tables_resource (py_str x)"
      then show ?thesis
        using ne tables_resource_inj [of "py_str x" e] schema_not_tables [of e t "py_str x"]
        by auto
    next
      assume "\<exists>t. r = schema_resource (py_str x) t"
      then obtain t0 where "r = schema_resource (py_str x) t0" ..
      then show ?thesis
        using ne schema_resource_inj [of "py_str x" t0 e t] schema_not_tables [of "py_str x" t0 e]
        by auto
    qed
  qed
  then show ?thesis by blast
qed

theorem list_resources_excludes_reserved_witness:
  "list_resources demo_world
     = ([Connect default_config, Query db_query, Query ''SHOW TABLES FROM default''],
        Inr [tables_resource ''default'', schema_resource ''default'' ''t''])
   \<and> tables_resource ''system''
       \<notin> set [tables_resource ''default'', schema_resource ''default'' ''t'']
   \<and> schema_resource ''system'' ''tables''
       \<notin> set [tables_resource ''default'', schema_resource ''default'' ''t'']"
proof -
  have run: "list_resources demo_world
     = ([Connect default_config, Query db_query, Query ''SHOW TABLES FROM default''],
        Inr [tables_resource ''default'', schema_resource ''default'' ''t''])"
    using demo_connect demo_db_query demo_show_tables
    by (simp add: list_resources_def index0_def Let_def)
  have ex: "''system'' \<in> set excluded"
    by (simp add: excluded_def)
  from list_resources_excludes_reserved [OF demo_connect demo_db_query_store run ex]
  show ?thesis using run by simp
qed

text \<open>
  A database named \<^verbatim>\<open>Information_Schema\<close> equals \<^verbatim>\<open>information_schema\<close> up to letter
  case, is not one of the three spellings, and is listed.
\<close>

theorem list_resources_mixed_case_listed:
  "py_upper ''Information_Schema'' = py_upper ''information_schema''
   \<and> list_resources mixed_case_world
     = ([Connect default_config, Query db_query,
         Query ''SHOW TABLES FROM Information_Schema''],
        Inr [\<lparr>uri = AnyUrl ''clickhouse://Information_Schema/tables'',
              name = ''Database: Information_Schema'', mimeType = ''text/plain'',
              description = ''Tables in database: Information_Schema''\<rparr>])"
proof -
  have up: "py_upper ''Information_Schema'' = py_upper ''information_schema''"
    by (simp add: py_upper_def upper_char_def)
  have q: "mixed_case_client db_query
     = Inr \<lparr>column_names = [''name'', ''engine''],
            result_rows = [[SStr ''Information_Schema'', SStr ''Atomic'']]\<rparr>"
    by (simp add: mixed_case_client_def store_query_db_query excluded_def)
  have t: "mixed_case_client (''SHOW TABLES FROM '' @ ''Information_Schema'')
     = Inr \<lparr>column_names = [''name''], result_rows = []\<rparr>"
    by (simp add: mixed_case_client_def db_query_def)
  show ?thesis
    using up mixed_case_connect q t
    by (simp add: list_resources_def index0_def tables_resource_def Let_def)
qed

end
